theory Spec2Isabelle
  imports Main
begin

section \<open>Data model of \<^verbatim>\<open>src/App.tsx\<close>\<close>

text \<open>
  The location object that the router hands to \<^verbatim>\<open>useLocation()\<close>. The source reads only
  \<^verbatim>\<open>location.pathname\<close>; the query string, the hash fragment and the history key are the
  other string fields of the router's location.
\<close>

record location =
  pathname :: string
  search :: string
  hash :: string
  key :: string

text \<open>
  A \<^verbatim>\<open>QueryClient\<close> object is known by its identity only: the number of the constructor call
  that made it. The runtime counts the constructor calls made so far.
\<close>

datatype QueryClient = QueryClient nat

record runtime =
  constructed :: nat

definition new_QueryClient :: "runtime \<Rightarrow> QueryClient \<times> runtime" where
  "new_QueryClient r = (QueryClient (constructed r), r\<lparr>constructed := Suc (constructed r)\<rparr>)"

text \<open>
  The imported components are opaque: providers, the two toast displays, the six pages and
  the camera preview. \<^verbatim>\<open>QueryClientProvider\<close> carries its \<^verbatim>\<open>client\<close> property.
\<close>

datatype component =
    QueryClientProvider QueryClient
  | TooltipProvider
  | Toaster
  | Sonner
  | BrowserRouter
  | AuthProvider
  | LoanProvider
  | Index
  | Login
  | Questionnaire
  | DocumentUpload
  | LoanStatus
  | NotFound
  | CameraPreview

text \<open>
  A JSX element is an imported component with its children, the \<^verbatim>\<open><Routes>\<close> element with
  its \<^verbatim>\<open><Route path=... element=... />\<close> entries in declaration order, or the
  \<^verbatim>\<open><ConditionalCameraPreview />\<close> element of the component defined in the file itself.
\<close>

datatype element =
    Element component "element list"
  | RoutesElement "(string \<times> element) list"
  | ConditionalCameraPreviewElement

abbreviation Route :: "string \<Rightarrow> element \<Rightarrow> string \<times> element" where
  "Route path el \<equiv> (path, el)"

section \<open>The components of the file\<close>

text \<open>
  \<^verbatim>\<open>const queryClient = new QueryClient();\<close> is the only statement with an effect that the
  module runs when it is evaluated.
\<close>

definition queryClient :: "runtime \<Rightarrow> QueryClient \<times> runtime" where
  "queryClient r = new_QueryClient r"

text \<open>
  \<^verbatim>\<open>ConditionalCameraPreview\<close>: \<^verbatim>\<open>null\<close> is \<open>None\<close>, \<^verbatim>\<open><CameraPreview />\<close> is the element
  without children. \<^verbatim>\<open>===\<close> on two strings is equality of their contents.
\<close>

definition ConditionalCameraPreview :: "location \<Rightarrow> element option" where
  "ConditionalCameraPreview location =
     (if pathname location = ''/document-upload'' \<or>
         pathname location = ''/'' \<or>
         pathname location = ''/loan-status''
      then None
      else Some (Element CameraPreview []))"

text \<open>
  The component as it is called, with its effects written out. The world \<open>w\<close> is
  everything outside the component that a statement of its body could read or change:
  the router's state, the network, the storage, the objects constructed so far. The first
  statement, \<^verbatim>\<open>const location = useLocation();\<close>, is the one call the body makes; the hook
  belongs to the router, so it is the parameter \<open>useLocation\<close>, which returns the location
  and the world as the hook leaves it. The rest of the body is the function above: it
  compares \<^verbatim>\<open>location.pathname\<close> and returns, so the world passes through untouched.
\<close>

definition ConditionalCameraPreview_component ::
  "('w \<Rightarrow> location \<times> 'w) \<Rightarrow> 'w \<Rightarrow> element option \<times> 'w" where
  "ConditionalCameraPreview_component useLocation w =
     (case useLocation w of
        (location, w') \<Rightarrow> (ConditionalCameraPreview location, w'))"

text \<open>
  The entries of the \<^verbatim>\<open><Routes>\<close> element of \<^verbatim>\<open>App\<close>, in declaration order.
\<close>

definition routes :: "(string \<times> element) list" where
  "routes =
     [Route ''/'' (Element Index []),
      Route ''/login'' (Element Login []),
      Route ''/questionnaire'' (Element Questionnaire []),
      Route ''/document-upload'' (Element DocumentUpload []),
      Route ''/loan-status'' (Element LoanStatus []),
      Route ''*'' (Element NotFound [])]"

text \<open>\<^verbatim>\<open>App\<close>: the JSX tree, with the module's \<^verbatim>\<open>queryClient\<close> as a parameter.\<close>

definition App :: "QueryClient \<Rightarrow> element" where
  "App client =
     Element (QueryClientProvider client)
       [Element TooltipProvider
          [Element Toaster [],
           Element Sonner [],
           Element BrowserRouter
             [Element AuthProvider
                [Element LoanProvider
                   [RoutesElement routes,
                    ConditionalCameraPreviewElement]]]]]"

section \<open>The router and the renderer\<close>

text \<open>
  Modelled from the spec: the dispatch of the router's \<^verbatim>\<open><Routes>\<close> component, which is
  imported from \<^verbatim>\<open>react-router-dom\<close> and not part of the sources. The spec's words are: a
  static table of (path pattern, page component) pairs, evaluated in declaration order,
  first match wins; the catch-all entry \<^verbatim>\<open>*\<close> matches any path not otherwise matched. How
  the router compares a static pattern with a pathname is left open by the spec, so it is
  the parameter \<open>matches\<close>. With no matching entry nothing is rendered.
\<close>

fun Routes :: "(string \<Rightarrow> string \<Rightarrow> bool) \<Rightarrow> (string \<times> element) list \<Rightarrow> location \<Rightarrow> element option"
  where
  "Routes matches [] location = None"
| "Routes matches ((path, el) # rest) location =
     (if path = ''*'' \<or> matches path (pathname location) then Some el
      else Routes matches rest location)"

text \<open>
  Rendering at a location: an imported component keeps its place and its children are
  rendered in order; \<^verbatim>\<open><Routes>\<close> is replaced by the element of the matched route;
  \<^verbatim>\<open><ConditionalCameraPreview />\<close> is replaced by what the component returns, nothing for
  \<^verbatim>\<open>null\<close>. Pages and the camera preview are opaque and stay as they are.
\<close>

fun render :: "(string \<Rightarrow> string \<Rightarrow> bool) \<Rightarrow> location \<Rightarrow> element \<Rightarrow> element list" where
  "render matches location (Element c children) =
     [Element c (concat (map (render matches location) children))]"
| "render matches location (RoutesElement rs) =
     (case Routes matches rs location of None \<Rightarrow> [] | Some el \<Rightarrow> [el])"
| "render matches location ConditionalCameraPreviewElement =
     (case ConditionalCameraPreview location of None \<Rightarrow> [] | Some el \<Rightarrow> [el])"

text \<open>
  One application instance: the module is evaluated, which constructs \<^verbatim>\<open>queryClient\<close>, and
  then \<^verbatim>\<open>App\<close> is rendered once for each navigation, in order.
\<close>

definition run :: "(string \<Rightarrow> string \<Rightarrow> bool) \<Rightarrow> location list \<Rightarrow> runtime \<Rightarrow> element list list \<times> runtime"
  where
  "run matches navigations r =
     (case queryClient r of
        (client, r') \<Rightarrow> (map (\<lambda>location. render matches location (App client)) navigations, r'))"

section \<open>Observations on element trees\<close>

text \<open>
  The chains of imported components above the nodes that satisfy \<open>P\<close>, each chain from the
  root downwards, one chain for each such node in document order.
\<close>

fun ancestors :: "(element \<Rightarrow> bool) \<Rightarrow> component list \<Rightarrow> element \<Rightarrow> component list list" where
  "ancestors P outer (Element c children) =
     (if P (Element c children) then [outer] else []) @
     concat (map (ancestors P (outer @ [c])) children)"
| "ancestors P outer (RoutesElement rs) =
     (if P (RoutesElement rs) then [outer] else []) @
     concat (map (\<lambda>r. ancestors P outer (snd r)) rs)"
| "ancestors P outer ConditionalCameraPreviewElement =
     (if P ConditionalCameraPreviewElement then [outer] else [])"

fun is_page :: "element \<Rightarrow> bool" where
  "is_page (Element c children) =
     (c = Index \<or> c = Login \<or> c = Questionnaire \<or> c = DocumentUpload \<or> c = LoanStatus \<or>
      c = NotFound)"
| "is_page (RoutesElement rs) = False"
| "is_page ConditionalCameraPreviewElement = False"

fun is_overlay :: "element \<Rightarrow> bool" where
  "is_overlay (Element c children) = (c = CameraPreview)"
| "is_overlay (RoutesElement rs) = False"
| "is_overlay ConditionalCameraPreviewElement = False"

fun is_route_table :: "element \<Rightarrow> bool" where
  "is_route_table (RoutesElement rs) = True"
| "is_route_table (Element c children) = False"
| "is_route_table ConditionalCameraPreviewElement = False"

fun is_selector :: "element \<Rightarrow> bool" where
  "is_selector ConditionalCameraPreviewElement = True"
| "is_selector (Element c children) = False"
| "is_selector (RoutesElement rs) = False"

text \<open>The \<^verbatim>\<open>client\<close> property of every \<^verbatim>\<open>QueryClientProvider\<close> in a tree.\<close>

fun clients :: "element \<Rightarrow> QueryClient list" where
  "clients (Element c children) =
     (case c of QueryClientProvider client \<Rightarrow> [client] | _ \<Rightarrow> []) @ concat (map clients children)"
| "clients (RoutesElement rs) = concat (map (\<lambda>r. clients (snd r)) rs)"
| "clients ConditionalCameraPreviewElement = []"

text \<open>
  A matcher of static patterns that, on the given literal paths, matches a pattern with
  exactly the path of the same spelling.
\<close>

definition literal_on :: "(string \<Rightarrow> string \<Rightarrow> bool) \<Rightarrow> string list \<Rightarrow> bool" where
  "literal_on matches paths =
     (\<forall>path \<in> set paths. \<forall>p \<in> set paths. matches path p = (path = p))"

text \<open>Lower case of the letters A to Z, to compare two paths up to letter case.\<close>

fun ascii_lower :: "char \<Rightarrow> char" where
  "ascii_lower (Char b0 b1 b2 b3 b4 b5 b6 b7) =
     (let n = (of_char (Char b0 b1 b2 b3 b4 b5 b6 b7) :: nat)
      in if 65 \<le> n \<and> n \<le> 90 then Char b0 b1 b2 b3 b4 True b6 b7
         else Char b0 b1 b2 b3 b4 b5 b6 b7)"

section \<open>The overlay selector\<close>

lemma ConditionalCameraPreview_None_iff:
  "ConditionalCameraPreview loc = None \<longleftrightarrow>
     pathname loc \<in> {''/document-upload'', ''/'', ''/loan-status''}"
  by (simp add: ConditionalCameraPreview_def)

text \<open>
  C1. At each of the three excluded paths \<^verbatim>\<open>/document-upload\<close>, \<^verbatim>\<open>/\<close> and
  \<^verbatim>\<open>/loan-status\<close> the selector returns \<^verbatim>\<open>null\<close>: the overlay is hidden.
\<close>

theorem overlay_hidden_on_excluded:
  "pathname loc \<in> {''/document-upload'', ''/'', ''/loan-status''} \<Longrightarrow>
     ConditionalCameraPreview loc = None"
  by (simp add: ConditionalCameraPreview_None_iff)

theorem overlay_hidden_on_excluded_witness:
  "pathname \<lparr>pathname = ''/loan-status'', search = '''', hash = '''', key = ''default''\<rparr>
     \<in> {''/document-upload'', ''/'', ''/loan-status''} \<and>
   ConditionalCameraPreview
     \<lparr>pathname = ''/loan-status'', search = '''', hash = '''', key = ''default''\<rparr> = None"
  using overlay_hidden_on_excluded
    [of "\<lparr>pathname = ''/loan-status'', search = '''', hash = '''', key = ''default''\<rparr>"]
  by simp

text \<open>
  C2. At every path outside the exclusion set the selector returns the camera overlay;
  \<^verbatim>\<open>/login\<close>, \<^verbatim>\<open>/questionnaire\<close> and the unmatched \<^verbatim>\<open>/xyz\<close> are such paths.
\<close>

theorem overlay_shown_elsewhere:
  "(pathname loc \<notin> {''/document-upload'', ''/'', ''/loan-status''} \<longrightarrow>
      ConditionalCameraPreview loc = Some (Element CameraPreview [])) \<and>
   (\<forall>p \<in> {''/login'', ''/questionnaire'', ''/xyz''}.
      ConditionalCameraPreview (loc\<lparr>pathname := p\<rparr>) = Some (Element CameraPreview []))"
  by (simp add: ConditionalCameraPreview_def)

theorem overlay_shown_elsewhere_witness:
  "pathname \<lparr>pathname = ''/xyz'', search = '''', hash = '''', key = ''default''\<rparr>
     \<notin> {''/document-upload'', ''/'', ''/loan-status''} \<and>
   ConditionalCameraPreview \<lparr>pathname = ''/xyz'', search = '''', hash = '''', key = ''default''\<rparr>
     = Some (Element CameraPreview []) \<and>
   ConditionalCameraPreview \<lparr>pathname = ''/login'', search = '''', hash = '''', key = ''default''\<rparr>
     = Some (Element CameraPreview [])"
  using overlay_shown_elsewhere
    [of "\<lparr>pathname = ''/xyz'', search = '''', hash = '''', key = ''default''\<rparr>"]
  by simp

text \<open>
  C3. The test is equality of the whole path. A path that is not itself an excluded path,
  and is one with a slash added or removed at the end, or one up to the case of its letters,
  gets the overlay.
\<close>

theorem overlay_exact_match:
  assumes "e \<in> {''/document-upload'', ''/'', ''/loan-status''}"
    and "pathname loc \<noteq> e"
    and "pathname loc = e @ ''/'' \<or> pathname loc @ ''/'' = e \<or>
         map ascii_lower (pathname loc) = map ascii_lower e"
  shows "ConditionalCameraPreview loc = Some (Element CameraPreview [])"
proof -
  have "pathname loc \<notin> {''/document-upload'', ''/'', ''/loan-status''}"
  proof
    assume ex: "pathname loc \<in> {''/document-upload'', ''/'', ''/loan-status''}"
    from assms(3) show False
    proof (elim disjE)
      assume "pathname loc = e @ ''/''"
      with ex assms(1) show False by auto
    next
      assume "pathname loc @ ''/'' = e"
      with ex assms(1) show False by auto
    next
      assume "map ascii_lower (pathname loc) = map ascii_lower e"
      then have "length (pathname loc) = length e"
        by (rule map_eq_imp_length_eq)
      with ex assms(1,2) show False by auto
    qed
  qed
  then show ?thesis
    by (simp add: ConditionalCameraPreview_def)
qed

theorem overlay_exact_match_witness:
  "ConditionalCameraPreview
     \<lparr>pathname = ''/loan-status/'', search = '''', hash = '''', key = ''default''\<rparr>
     = Some (Element CameraPreview []) \<and>
   ConditionalCameraPreview
     \<lparr>pathname = ''/DOCUMENT-UPLOAD'', search = '''', hash = '''', key = ''default''\<rparr>
     = Some (Element CameraPreview []) \<and>
   ConditionalCameraPreview
     \<lparr>pathname = '''', search = '''', hash = '''', key = ''default''\<rparr>
     = Some (Element CameraPreview [])"
proof -
  have a: "ConditionalCameraPreview
     \<lparr>pathname = ''/loan-status/'', search = '''', hash = '''', key = ''default''\<rparr>
     = Some (Element CameraPreview [])"
    by (rule overlay_exact_match [where e = "''/loan-status''"]) simp_all
  have b: "ConditionalCameraPreview
     \<lparr>pathname = ''/DOCUMENT-UPLOAD'', search = '''', hash = '''', key = ''default''\<rparr>
     = Some (Element CameraPreview [])"
    by (rule overlay_exact_match [where e = "''/document-upload''"]) simp_all
  have c: "ConditionalCameraPreview
     \<lparr>pathname = '''', search = '''', hash = '''', key = ''default''\<rparr>
     = Some (Element CameraPreview [])"
    by (rule overlay_exact_match [where e = "''/''"]) simp_all
  from a b c show ?thesis by simp
qed

text \<open>
  C4. The selector has a result at every location, and the result is one of the two
  decisions: the component has no failing branch. A path outside the exclusion set, the
  empty path among them, takes the branch that renders the overlay.
\<close>

theorem overlay_total:
  "(ConditionalCameraPreview loc = None \<or>
    ConditionalCameraPreview loc = Some (Element CameraPreview [])) \<and>
   (pathname loc \<notin> {''/document-upload'', ''/'', ''/loan-status''} \<longrightarrow>
      ConditionalCameraPreview loc = Some (Element CameraPreview [])) \<and>
   ConditionalCameraPreview (loc\<lparr>pathname := ''''\<rparr>) = Some (Element CameraPreview [])"
  by (simp add: ConditionalCameraPreview_def)

theorem overlay_total_witness:
  "pathname \<lparr>pathname = ''not a path'', search = ''?'', hash = ''#'', key = ''''\<rparr>
     \<notin> {''/document-upload'', ''/'', ''/loan-status''} \<and>
   ConditionalCameraPreview \<lparr>pathname = ''not a path'', search = ''?'', hash = ''#'', key = ''''\<rparr>
     = Some (Element CameraPreview []) \<and>
   ConditionalCameraPreview \<lparr>pathname = '''', search = ''?'', hash = ''#'', key = ''''\<rparr>
     = Some (Element CameraPreview [])"
  using overlay_total
    [of "\<lparr>pathname = ''not a path'', search = ''?'', hash = ''#'', key = ''''\<rparr>"]
  by simp

text \<open>
  C9. The selector is a pure function of the current path. Two evaluations at locations
  with the same path return the same result, also when they happen in different worlds and
  under different hooks: nothing but the path is read. The evaluation has no effect of its
  own: the world after the component is the world as \<^verbatim>\<open>useLocation\<close> left it, so under a hook
  that only reads, the world is unchanged. What the evaluation yields is \<^verbatim>\<open>null\<close> or
  \<^verbatim>\<open><CameraPreview />\<close> and nothing else: the overlay child is unmounted or mounted.
\<close>

theorem overlay_deterministic:
  "(pathname l1 = pathname l2 \<longrightarrow>
      ConditionalCameraPreview l1 = ConditionalCameraPreview l2) \<and>
   (pathname (fst (hook1 w1)) = pathname (fst (hook2 w2)) \<longrightarrow>
      fst (ConditionalCameraPreview_component hook1 w1) =
      fst (ConditionalCameraPreview_component hook2 w2)) \<and>
   snd (ConditionalCameraPreview_component hook1 w1) = snd (hook1 w1) \<and>
   (snd (hook1 w1) = w1 \<longrightarrow> snd (ConditionalCameraPreview_component hook1 w1) = w1) \<and>
   (fst (ConditionalCameraPreview_component hook1 w1) = None \<or>
    fst (ConditionalCameraPreview_component hook1 w1) = Some (Element CameraPreview []))"
proof -
  have same: "ConditionalCameraPreview a = ConditionalCameraPreview b"
    if "pathname a = pathname b" for a b
    using that by (simp add: ConditionalCameraPreview_def)
  have decision: "fst (ConditionalCameraPreview_component hook w) =
                    ConditionalCameraPreview (fst (hook w))"
    for hook :: "'x \<Rightarrow> location \<times> 'x" and w
    by (simp add: ConditionalCameraPreview_component_def split: prod.split)
  have world: "snd (ConditionalCameraPreview_component hook1 w1) = snd (hook1 w1)"
    by (simp add: ConditionalCameraPreview_component_def split: prod.split)
  have two: "fst (ConditionalCameraPreview_component hook1 w1) = None \<or>
             fst (ConditionalCameraPreview_component hook1 w1) = Some (Element CameraPreview [])"
    by (simp add: decision ConditionalCameraPreview_def)
  from same [of l1 l2] same [of "fst (hook1 w1)" "fst (hook2 w2)"] decision [of hook1 w1]
    decision [of hook2 w2] world two
  show ?thesis by simp
qed

theorem overlay_deterministic_witness:
  "pathname \<lparr>pathname = ''/login'', search = '''', hash = '''', key = ''k1''\<rparr> =
   pathname \<lparr>pathname = ''/login'', search = '''', hash = '''', key = ''k2''\<rparr> \<and>
   ConditionalCameraPreview \<lparr>pathname = ''/login'', search = '''', hash = '''', key = ''k1''\<rparr> =
   ConditionalCameraPreview \<lparr>pathname = ''/login'', search = '''', hash = '''', key = ''k2''\<rparr> \<and>
   fst (ConditionalCameraPreview_component (\<lambda>w. (fst w, w))
     (\<lparr>pathname = ''/login'', search = '''', hash = '''', key = ''k1''\<rparr>,
      [''GET /session''])) =
   fst (ConditionalCameraPreview_component (\<lambda>w. (fst w, w))
     (\<lparr>pathname = ''/login'', search = ''?next=1'', hash = '''', key = ''k2''\<rparr>,
      [] :: string list)) \<and>
   snd (ConditionalCameraPreview_component (\<lambda>w. (fst w, w))
     (\<lparr>pathname = ''/login'', search = '''', hash = '''', key = ''k1''\<rparr>,
      [''GET /session''])) =
     (\<lparr>pathname = ''/login'', search = '''', hash = '''', key = ''k1''\<rparr>,
      [''GET /session''])"
proof -
  let ?l1 = "\<lparr>pathname = ''/login'', search = '''', hash = '''', key = ''k1''\<rparr>"
  let ?l2 = "\<lparr>pathname = ''/login'', search = '''', hash = '''', key = ''k2''\<rparr>"
  let ?hook = "\<lambda>w :: location \<times> string list. (fst w, w)"
  let ?w1 = "(?l1, [''GET /session''])"
  let ?w2 = "(\<lparr>pathname = ''/login'', search = ''?next=1'', hash = '''', key = ''k2''\<rparr>,
              [] :: string list)"
  have paths: "pathname ?l1 = pathname ?l2"
    by simp
  have hooked: "pathname (fst (?hook ?w1)) = pathname (fst (?hook ?w2))"
    by simp
  have reads: "snd (?hook ?w1) = ?w1"
    by simp
  note inst = overlay_deterministic [of ?l1 ?l2 ?hook ?w1 ?hook ?w2]
  have same: "ConditionalCameraPreview ?l1 = ConditionalCameraPreview ?l2"
    by (rule mp [OF inst [THEN conjunct1] paths])
  have decision: "fst (ConditionalCameraPreview_component ?hook ?w1) =
                  fst (ConditionalCameraPreview_component ?hook ?w2)"
    by (rule mp [OF inst [THEN conjunct2, THEN conjunct1] hooked])
  have world: "snd (ConditionalCameraPreview_component ?hook ?w1) = ?w1"
    by (rule mp [OF inst [THEN conjunct2, THEN conjunct2, THEN conjunct2, THEN conjunct1] reads])
  from paths same decision world show ?thesis
    by (intro conjI)
qed

text \<open>
  C10. Two locations with equal pathnames whose query strings or hash fragments differ get
  the same decision.
\<close>

theorem overlay_ignores_search_and_hash:
  "pathname l1 = pathname l2 \<Longrightarrow> search l1 \<noteq> search l2 \<or> hash l1 \<noteq> hash l2 \<Longrightarrow>
     ConditionalCameraPreview l1 = ConditionalCameraPreview l2"
  by (simp add: ConditionalCameraPreview_def)

theorem overlay_ignores_search_and_hash_witness:
  "pathname \<lparr>pathname = ''/'', search = ''?step=2'', hash = '''', key = ''k''\<rparr> =
   pathname \<lparr>pathname = ''/'', search = '''', hash = ''#top'', key = ''k''\<rparr> \<and>
   search \<lparr>pathname = ''/'', search = ''?step=2'', hash = '''', key = ''k''\<rparr> \<noteq>
   search \<lparr>pathname = ''/'', search = '''', hash = ''#top'', key = ''k''\<rparr> \<and>
   hash \<lparr>pathname = ''/'', search = ''?step=2'', hash = '''', key = ''k''\<rparr> \<noteq>
   hash \<lparr>pathname = ''/'', search = '''', hash = ''#top'', key = ''k''\<rparr> \<and>
   ConditionalCameraPreview \<lparr>pathname = ''/'', search = ''?step=2'', hash = '''', key = ''k''\<rparr> =
   ConditionalCameraPreview \<lparr>pathname = ''/'', search = '''', hash = ''#top'', key = ''k''\<rparr>"
  using overlay_ignores_search_and_hash
    [of "\<lparr>pathname = ''/'', search = ''?step=2'', hash = '''', key = ''k''\<rparr>"
        "\<lparr>pathname = ''/'', search = '''', hash = ''#top'', key = ''k''\<rparr>"]
  by simp

section \<open>The route table, the provider stack and the query client\<close>

lemma render_App:
  "render m loc (App qc) =
     [Element (QueryClientProvider qc)
        [Element TooltipProvider
           [Element Toaster [], Element Sonner [],
            Element BrowserRouter
              [Element AuthProvider
                 [Element LoanProvider
                    ((case Routes m routes loc of None \<Rightarrow> [] | Some el \<Rightarrow> [el]) @
                     (case ConditionalCameraPreview loc of None \<Rightarrow> [] | Some el \<Rightarrow> [el]))]]]]]"
  by (simp add: App_def)

lemma Routes_routes_page:
  "\<exists>c. Routes m routes loc = Some (Element c []) \<and> is_page (Element c [])"
  by (simp add: routes_def)

lemma ConditionalCameraPreview_cases:
  "ConditionalCameraPreview loc = None \<or>
   ConditionalCameraPreview loc = Some (Element CameraPreview [])"
  by (simp add: ConditionalCameraPreview_def)

text \<open>
  C5. The table sends every path to exactly one page. Its entries are the five static
  paths and then the catch-all, which comes last and only there. Under a matcher that takes
  the five static paths literally each of them gets its own page, and under any matcher a
  path that matches none of the five static entries gets the \<^verbatim>\<open>NotFound\<close> page: dispatch
  has no failing and no redirecting result.
\<close>

theorem route_table_dispatch:
  "map fst routes =
     [''/'', ''/login'', ''/questionnaire'', ''/document-upload'', ''/loan-status'', ''*''] \<and>
   fst (last routes) = ''*'' \<and> ''*'' \<notin> set (map fst (butlast routes)) \<and>
   (\<exists>c. Routes m routes loc = Some (Element c []) \<and> is_page (Element c [])) \<and>
   (literal_on m (map fst (butlast routes)) \<longrightarrow>
      (pathname loc = ''/'' \<longrightarrow> Routes m routes loc = Some (Element Index [])) \<and>
      (pathname loc = ''/login'' \<longrightarrow> Routes m routes loc = Some (Element Login [])) \<and>
      (pathname loc = ''/questionnaire'' \<longrightarrow>
         Routes m routes loc = Some (Element Questionnaire [])) \<and>
      (pathname loc = ''/document-upload'' \<longrightarrow>
         Routes m routes loc = Some (Element DocumentUpload [])) \<and>
      (pathname loc = ''/loan-status'' \<longrightarrow>
         Routes m routes loc = Some (Element LoanStatus []))) \<and>
   ((\<forall>path \<in> set (map fst (butlast routes)). \<not> m path (pathname loc)) \<longrightarrow>
      Routes m routes loc = Some (Element NotFound []))"
proof -
  have order: "map fst routes =
     [''/'', ''/login'', ''/questionnaire'', ''/document-upload'', ''/loan-status'', ''*'']"
    by (simp add: routes_def)
  have last: "fst (last routes) = ''*'' \<and> ''*'' \<notin> set (map fst (butlast routes))"
    by (simp add: routes_def)
  have static: "literal_on m (map fst (butlast routes)) \<longrightarrow>
      (pathname loc = ''/'' \<longrightarrow> Routes m routes loc = Some (Element Index [])) \<and>
      (pathname loc = ''/login'' \<longrightarrow> Routes m routes loc = Some (Element Login [])) \<and>
      (pathname loc = ''/questionnaire'' \<longrightarrow>
         Routes m routes loc = Some (Element Questionnaire [])) \<and>
      (pathname loc = ''/document-upload'' \<longrightarrow>
         Routes m routes loc = Some (Element DocumentUpload [])) \<and>
      (pathname loc = ''/loan-status'' \<longrightarrow>
         Routes m routes loc = Some (Element LoanStatus []))"
    by (simp add: routes_def literal_on_def)
  have fallback: "(\<forall>path \<in> set (map fst (butlast routes)). \<not> m path (pathname loc)) \<longrightarrow>
      Routes m routes loc = Some (Element NotFound [])"
    by (simp add: routes_def)
  from order last Routes_routes_page [of m loc] static fallback show ?thesis
    by blast
qed

theorem route_table_dispatch_witness:
  "literal_on (=) (map fst (butlast routes)) \<and>
   Routes (=) routes \<lparr>pathname = ''/login'', search = '''', hash = '''', key = ''default''\<rparr>
     = Some (Element Login []) \<and>
   ''/unknown-path'' \<notin> set (map fst (butlast routes)) \<and>
   Routes (=) routes \<lparr>pathname = ''/unknown-path'', search = '''', hash = '''', key = ''default''\<rparr>
     = Some (Element NotFound [])"
proof -
  have lit: "literal_on (=) (map fst (butlast routes))"
    by (simp add: literal_on_def)
  have un: "\<forall>path \<in> set (map fst (butlast routes)). \<not> path = ''/unknown-path''"
    by (simp add: routes_def)
  have out: "''/unknown-path'' \<notin> set (map fst (butlast routes))"
    by (simp add: routes_def)
  from lit un out
    route_table_dispatch
      [of "(=)" "\<lparr>pathname = ''/login'', search = '''', hash = '''', key = ''default''\<rparr>"]
    route_table_dispatch
      [of "(=)" "\<lparr>pathname = ''/unknown-path'', search = '''', hash = '''', key = ''default''\<rparr>"]
  show ?thesis by simp
qed

text \<open>
  C6. At \<^verbatim>\<open>/\<close> the table gives the landing page \<^verbatim>\<open>Index\<close> and the selector gives nothing, so
  the rendered tree has the page and no overlay; at \<^verbatim>\<open>/questionnaire\<close> the table gives the
  questionnaire page and the selector gives the overlay, so the rendered tree has both.
\<close>

theorem landing_and_questionnaire:
  assumes "literal_on m (map fst (butlast routes))"
  shows "(pathname loc = ''/'' \<longrightarrow>
           Routes m routes loc = Some (Element Index []) \<and>
           ConditionalCameraPreview loc = None \<and>
           render m loc (App qc) =
             [Element (QueryClientProvider qc)
                [Element TooltipProvider
                   [Element Toaster [], Element Sonner [],
                    Element BrowserRouter
                      [Element AuthProvider
                         [Element LoanProvider [Element Index []]]]]]]) \<and>
         (pathname loc = ''/questionnaire'' \<longrightarrow>
           Routes m routes loc = Some (Element Questionnaire []) \<and>
           ConditionalCameraPreview loc = Some (Element CameraPreview []) \<and>
           render m loc (App qc) =
             [Element (QueryClientProvider qc)
                [Element TooltipProvider
                   [Element Toaster [], Element Sonner [],
                    Element BrowserRouter
                      [Element AuthProvider
                         [Element LoanProvider
                            [Element Questionnaire [], Element CameraPreview []]]]]]])"
  using assms
  by (simp add: render_App routes_def literal_on_def ConditionalCameraPreview_def)

theorem landing_and_questionnaire_witness:
  "literal_on (=) (map fst (butlast routes)) \<and>
   render (=) \<lparr>pathname = ''/'', search = '''', hash = '''', key = ''default''\<rparr>
     (App (QueryClient 0)) =
     [Element (QueryClientProvider (QueryClient 0))
        [Element TooltipProvider
           [Element Toaster [], Element Sonner [],
            Element BrowserRouter
              [Element AuthProvider
                 [Element LoanProvider [Element Index []]]]]]] \<and>
   render (=) \<lparr>pathname = ''/questionnaire'', search = '''', hash = '''', key = ''default''\<rparr>
     (App (QueryClient 0)) =
     [Element (QueryClientProvider (QueryClient 0))
        [Element TooltipProvider
           [Element Toaster [], Element Sonner [],
            Element BrowserRouter
              [Element AuthProvider
                 [Element LoanProvider
                    [Element Questionnaire [], Element CameraPreview []]]]]]]"
proof -
  have lit: "literal_on (=) (map fst (butlast routes))"
    by (simp add: literal_on_def)
  from lit
    landing_and_questionnaire [OF lit,
      of "\<lparr>pathname = ''/'', search = '''', hash = '''', key = ''default''\<rparr>" "QueryClient 0"]
    landing_and_questionnaire [OF lit,
      of "\<lparr>pathname = ''/questionnaire'', search = '''', hash = '''', key = ''default''\<rparr>"
         "QueryClient 0"]
  show ?thesis by simp
qed

text \<open>
  C7. In \<^verbatim>\<open>App\<close> the route table and the overlay selector each sit below exactly the
  five providers, from the outside in: query client, tooltip, router, authentication, loan
  workflow. So do the six page elements of the table, and in the tree rendered at any
  location so do the one page shown and the overlay when it is shown.
\<close>

theorem provider_stack_wraps:
  "(let stack = [QueryClientProvider qc, TooltipProvider, BrowserRouter, AuthProvider, LoanProvider]
    in ancestors is_route_table [] (App qc) = [stack] \<and>
       ancestors is_selector [] (App qc) = [stack] \<and>
       ancestors is_page [] (App qc) = replicate 6 stack \<and>
       concat (map (ancestors is_page []) (render m loc (App qc))) = [stack] \<and>
       concat (map (ancestors is_overlay []) (render m loc (App qc))) =
         (case ConditionalCameraPreview loc of None \<Rightarrow> [] | Some el \<Rightarrow> [stack]))"
proof -
  obtain c where c: "Routes m routes loc = Some (Element c [])" "is_page (Element c [])"
    using Routes_routes_page by blast
  have nov: "\<not> is_overlay (Element c [])"
    using c(2) by auto
  have jsx: "ancestors is_route_table [] (App qc) =
               [[QueryClientProvider qc, TooltipProvider, BrowserRouter, AuthProvider, LoanProvider]]"
    "ancestors is_selector [] (App qc) =
               [[QueryClientProvider qc, TooltipProvider, BrowserRouter, AuthProvider, LoanProvider]]"
    "ancestors is_page [] (App qc) =
       replicate 6 [QueryClientProvider qc, TooltipProvider, BrowserRouter, AuthProvider, LoanProvider]"
    by (simp_all add: App_def routes_def numeral_eq_Suc)
  from ConditionalCameraPreview_cases [of loc]
  have rendered:
    "concat (map (ancestors is_page []) (render m loc (App qc))) =
       [[QueryClientProvider qc, TooltipProvider, BrowserRouter, AuthProvider, LoanProvider]]"
    "concat (map (ancestors is_overlay []) (render m loc (App qc))) =
       (case ConditionalCameraPreview loc of None \<Rightarrow> []
        | Some el \<Rightarrow> [[QueryClientProvider qc, TooltipProvider, BrowserRouter, AuthProvider, LoanProvider]])"
    using c nov by (auto simp add: render_App)
  from jsx rendered show ?thesis
    by (simp add: Let_def)
qed

theorem provider_stack_wraps_witness:
  "concat (map (ancestors is_page [])
     (render (=) \<lparr>pathname = ''/questionnaire'', search = '''', hash = '''', key = ''default''\<rparr>
        (App (QueryClient 0)))) =
     [[QueryClientProvider (QueryClient 0), TooltipProvider, BrowserRouter, AuthProvider,
       LoanProvider]] \<and>
   concat (map (ancestors is_overlay [])
     (render (=) \<lparr>pathname = ''/questionnaire'', search = '''', hash = '''', key = ''default''\<rparr>
        (App (QueryClient 0)))) =
     [[QueryClientProvider (QueryClient 0), TooltipProvider, BrowserRouter, AuthProvider,
       LoanProvider]]"
  using provider_stack_wraps
    [of "QueryClient 0" "(=)"
        "\<lparr>pathname = ''/questionnaire'', search = '''', hash = '''', key = ''default''\<rparr>"]
  by (simp add: Let_def ConditionalCameraPreview_def)

text \<open>
  C8. In one application instance the \<^verbatim>\<open>QueryClient\<close> constructor runs exactly once, when
  the module is evaluated and before the first render, however many navigations follow;
  every render of \<^verbatim>\<open>App\<close> passes that one instance to the only
  \<^verbatim>\<open>QueryClientProvider\<close> of the tree.
\<close>

theorem queryClient_single_instance:
  assumes "run m navigations r = (outs, r')"
  shows "constructed r' = Suc (constructed r) \<and>
         fst (queryClient r) = QueryClient (constructed r) \<and>
         length outs = length navigations \<and>
         (\<forall>out \<in> set outs. map clients out = [[QueryClient (constructed r)]])"
proof -
  have one: "map clients (render m loc (App qc)) = [[qc]]" for loc qc
  proof -
    obtain c where c: "Routes m routes loc = Some (Element c [])" "is_page (Element c [])"
      using Routes_routes_page by blast
    from c(2) have "clients (Element c []) = []"
      by auto
    with c(1) ConditionalCameraPreview_cases [of loc] show ?thesis
      by (auto simp add: render_App)
  qed
  from assms show ?thesis
    by (auto simp add: run_def queryClient_def new_QueryClient_def one)
qed

theorem queryClient_single_instance_witness:
  "constructed (snd (run (=)
      [\<lparr>pathname = ''/login'', search = '''', hash = '''', key = ''k1''\<rparr>,
       \<lparr>pathname = ''/questionnaire'', search = '''', hash = '''', key = ''k2''\<rparr>]
      \<lparr>constructed = 0\<rparr>)) = 1 \<and>
   map (map clients) (fst (run (=)
      [\<lparr>pathname = ''/login'', search = '''', hash = '''', key = ''k1''\<rparr>,
       \<lparr>pathname = ''/questionnaire'', search = '''', hash = '''', key = ''k2''\<rparr>]
      \<lparr>constructed = 0\<rparr>)) = [[[QueryClient 0]], [[QueryClient 0]]]"
proof -
  let ?navs = "[\<lparr>pathname = ''/login'', search = '''', hash = '''', key = ''k1''\<rparr>,
       \<lparr>pathname = ''/questionnaire'', search = '''', hash = '''', key = ''k2''\<rparr>]"
  from queryClient_single_instance
    [of "(=)" ?navs "\<lparr>constructed = 0\<rparr>", OF prod.collapse [symmetric]]
  have "constructed (snd (run (=) ?navs \<lparr>constructed = 0\<rparr>)) = 1"
    and "length (fst (run (=) ?navs \<lparr>constructed = 0\<rparr>)) = 2"
    and "\<forall>out \<in> set (fst (run (=) ?navs \<lparr>constructed = 0\<rparr>)).
           map clients out = [[QueryClient 0]]"
    by simp_all
  then show ?thesis
    by (auto simp add: length_Suc_conv numeral_2_eq_2)
qed

end
